theory Spec2Isabelle
  imports Main
begin

section \<open>Go strings and errors\<close>

text \<open>
  A Go string is a sequence of bytes, modelled as \<^typ>\<open>string\<close> (a list of 8-bit
  characters). \<open>strings.HasSuffix\<close> is the standard library's
  \<^verbatim>\<open>len(s) >= len(suffix) && s[len(s)-len(suffix):] == suffix\<close>.
  The line-feed string \<^verbatim>\<open>"\n"\<close> is the single byte 0x0A.
\<close>

definition HasSuffix :: "string \<Rightarrow> string \<Rightarrow> bool" where
  "HasSuffix s suf = (length suf \<le> length s \<and> drop (length s - length suf) s = suf)"

definition LF :: string where
  "LF = [CHR 0x0A]"

text \<open>
  The errors the programs build themselves, one constructor per message; an error of a
  library call is carried by its text, and \<open>Lib\<close> is such an error returned unchanged
  (\<^verbatim>\<open>return err\<close>). A nil Go error is \<open>None\<close>.
\<close>

datatype error =
    Lib string
  | FailedToOpenDevice string       \<comment> \<open>failed to open device: ...\<close>
  | PrinterNotFound                 \<comment> \<open>Zebra printer not found\<close>
  | FailedToSetAutoDetach string    \<comment> \<open>failed to set auto detach: ...\<close>
  | FailedToClaimInterface string   \<comment> \<open>failed to claim interface: ...\<close>
  | FailedToOpenOutEndpoint string  \<comment> \<open>failed to open out endpoint: ...\<close>
  | NoOutEndpointFound              \<comment> \<open>no OUT endpoint found\<close>
  | InterfaceNotClaimed             \<comment> \<open>printer interface not claimed\<close>
  | FailedToConnect string          \<comment> \<open>failed to connect to printer: ...\<close>
  | NotConnected                    \<comment> \<open>not connected to printer\<close>
  | FailedToReadFile string         \<comment> \<open>failed to read file: ...\<close>
  | FailedToSendData string         \<comment> \<open>failed to send data: ...\<close>

section \<open>The USB printer (main.go)\<close>

subsection \<open>The USB library as the code sees it\<close>

definition usbVendorID :: nat where
  "usbVendorID = 0x0a5f"

definition usbProductID :: nat where
  "usbProductID = 0x00d4"

datatype Context = Context

datatype Device = Device nat nat

datatype direction = EndpointDirectionIn | EndpointDirectionOut

record EndpointDesc =
  Number :: nat
  Direction :: direction

text \<open>The claimed interface; \<open>Endpoints\<close> is \<^verbatim>\<open>intf.Setting.Endpoints\<close> in the order
  the \<^verbatim>\<open>range\<close> loop visits it.\<close>

record Interface =
  Endpoints :: "EndpointDesc list"

datatype OutEndpoint = OutEndpoint nat

text \<open>
  What \<^verbatim>\<open>ctx.OpenDeviceWithVIDPID\<close> hands back: an error, no device and no error,
  or an opened device.
\<close>

datatype lookup = LookupFailed string | NoMatch | Found Device

text \<open>
  The outcome of every library call the USB code makes, fixed for one run: the device
  lookup, the platform, \<^verbatim>\<open>dev.SetAutoDetach(true)\<close>, \<^verbatim>\<open>dev.DefaultInterface()\<close>,
  \<^verbatim>\<open>intf.OutEndpoint(n)\<close>, \<^verbatim>\<open>dev.Close()\<close> and \<^verbatim>\<open>outEP.Write\<close>.
\<close>

record usb_env =
  OpenDeviceWithVIDPID :: "nat \<Rightarrow> nat \<Rightarrow> lookup"
  GOOS :: string
  SetAutoDetach :: "string option"
  DefaultInterface :: "string + Interface"
  OpenOutEndpoint :: "nat \<Rightarrow> string + OutEndpoint"
  DeviceClose :: "string option"
  EndpointWrite :: "string \<Rightarrow> string option"

text \<open>
  The calls that take or give back a USB resource, and the bulk writes, in the order the
  code makes them. \<open>Acquire r\<close> is logged when the acquiring call succeeded;
  \<open>Release r\<close> when the code calls the resource's release (\<^verbatim>\<open>ctx.Close()\<close>,
  \<^verbatim>\<open>dev.Close()\<close>, \<^verbatim>\<open>done()\<close> or \<^verbatim>\<open>intf.Close()\<close>).
\<close>

datatype resource = UsbContext | UsbDevice | UsbInterface

datatype usb_event = Acquire resource | Release resource | BulkWrite OutEndpoint string

subsection \<open>NewUSBPrinter\<close>

text \<open>
  \<open>intf\<close> and \<open>outEP\<close> are assigned once, by \<open>NewUSBPrinter\<close>, to non-nil values and
  never tested or reset; \<open>ctx\<close> and \<open>dev\<close> are pointers the code compares with nil.
\<close>

record USBPrinter =
  ctx :: "Context option"
  dev :: "Device option"
  intf :: Interface
  outEP :: OutEndpoint
  claimed :: bool

text \<open>The deferred function of \<open>NewUSBPrinter\<close>, run at every return with the value the
  variable \<open>ctx\<close> has then.\<close>

definition deferred_ctx_close :: "Context option \<Rightarrow> usb_event list \<Rightarrow> usb_event list" where
  "deferred_ctx_close c t = (if c \<noteq> None then t @ [Release UsbContext] else t)"

text \<open>The loop over the endpoints: the first OUT endpoint is opened and the loop left;
  an error of that open is returned; \<open>Inr None\<close> is the loop ending with \<open>outEP\<close> nil.\<close>

fun find_out_endpoint :: "usb_env \<Rightarrow> EndpointDesc list \<Rightarrow> string + OutEndpoint option" where
  "find_out_endpoint env [] = Inr None"
| "find_out_endpoint env (ep # eps) =
     (if Direction ep = EndpointDirectionOut
      then (case OpenOutEndpoint env (Number ep) of
              Inl e \<Rightarrow> Inl e
            | Inr oe \<Rightarrow> Inr (Some oe))
      else find_out_endpoint env eps)"

definition NewUSBPrinter :: "usb_env \<Rightarrow> (error + USBPrinter) \<times> usb_event list" where
  "NewUSBPrinter env =
     (let c = Some Context;
          t0 = [Acquire UsbContext]
      in case OpenDeviceWithVIDPID env usbVendorID usbProductID of
           LookupFailed e \<Rightarrow> (Inl (FailedToOpenDevice e), deferred_ctx_close c t0)
         | NoMatch \<Rightarrow> (Inl PrinterNotFound, deferred_ctx_close c t0)
         | Found d \<Rightarrow>
             (let t1 = t0 @ [Acquire UsbDevice]
              in case (if GOOS env = ''linux'' then SetAutoDetach env else None) of
                   Some e \<Rightarrow>
                     (Inl (FailedToSetAutoDetach e),
                      deferred_ctx_close c (t1 @ [Release UsbDevice]))
                 | None \<Rightarrow>
                     (case DefaultInterface env of
                        Inl e \<Rightarrow>
                          (Inl (FailedToClaimInterface e),
                           deferred_ctx_close c (t1 @ [Release UsbDevice]))
                      | Inr i \<Rightarrow>
                          (let t2 = t1 @ [Acquire UsbInterface]
                           in case find_out_endpoint env (Endpoints i) of
                                Inl e \<Rightarrow>
                                  (Inl (FailedToOpenOutEndpoint e),
                                   deferred_ctx_close c
                                     (t2 @ [Release UsbInterface, Release UsbDevice]))
                              | Inr None \<Rightarrow>
                                  (Inl NoOutEndpointFound,
                                   deferred_ctx_close c
                                     (t2 @ [Release UsbInterface, Release UsbDevice]))
                              | Inr (Some oe) \<Rightarrow>
                                  (let c' = None
                                   in (Inr \<lparr>ctx = c', dev = Some d, intf = i,
                                             outEP = oe, claimed = True\<rparr>,
                                       deferred_ctx_close c' t2))))))"

subsection \<open>SendZPL and Close of the USB printer\<close>

definition USBPrinter_SendZPL ::
  "usb_env \<Rightarrow> USBPrinter \<Rightarrow> string \<Rightarrow> error option \<times> usb_event list" where
  "USBPrinter_SendZPL env p zpl =
     (if \<not> claimed p then (Some InterfaceNotClaimed, [])
      else (let zpl' = (if \<not> HasSuffix zpl LF then zpl @ LF else zpl)
            in (map_option Lib (EndpointWrite env zpl'), [BulkWrite (outEP p) zpl'])))"

text \<open>\<open>Close\<close> returns the error of \<^verbatim>\<open>dev.Close()\<close> (nil when the device pointer is
  already nil), the handle as it leaves it, and the release calls it made.\<close>

definition USBPrinter_Close ::
  "usb_env \<Rightarrow> USBPrinter \<Rightarrow> (error option \<times> USBPrinter) \<times> usb_event list" where
  "USBPrinter_Close env p =
     (let (p1, t1) = (if claimed p then (p\<lparr>claimed := False\<rparr>, [Release UsbInterface])
                      else (p, []));
          (err, p2, t2) = (if dev p1 \<noteq> None
                           then (map_option Lib (DeviceClose env), p1\<lparr>dev := None\<rparr>,
                                 t1 @ [Release UsbDevice])
                           else (None, p1, t1));
          (p3, t3) = (if ctx p2 \<noteq> None then (p2\<lparr>ctx := None\<rparr>, t2 @ [Release UsbContext])
                      else (p2, t2))
      in ((err, p3), t3))"

subsection \<open>Reading a trace\<close>

fun acquired :: "usb_event list \<Rightarrow> resource list" where
  "acquired [] = []"
| "acquired (Acquire r # t) = r # acquired t"
| "acquired (_ # t) = acquired t"

text \<open>The resources taken and not given back, latest first.\<close>

fun held_after :: "resource list \<Rightarrow> usb_event list \<Rightarrow> resource list" where
  "held_after h [] = h"
| "held_after h (Acquire r # t) = held_after (r # h) t"
| "held_after h (Release r # t) = held_after (remove1 r h) t"
| "held_after h (BulkWrite _ _ # t) = held_after h t"

definition held :: "usb_event list \<Rightarrow> resource list" where
  "held t = held_after [] t"

subsection \<open>Sample runs\<close>

definition ep_in :: EndpointDesc where
  "ep_in = \<lparr>Number = 1, Direction = EndpointDirectionIn\<rparr>"

definition ep_out :: EndpointDesc where
  "ep_out = \<lparr>Number = 2, Direction = EndpointDirectionOut\<rparr>"

text \<open>A printer that is attached and opens without trouble, on Linux.\<close>

definition usb_ok :: usb_env where
  "usb_ok = \<lparr>OpenDeviceWithVIDPID = (\<lambda>v p. Found (Device v p)),
             GOOS = ''linux'',
             SetAutoDetach = None,
             DefaultInterface = Inr \<lparr>Endpoints = [ep_in, ep_out]\<rparr>,
             OpenOutEndpoint = (\<lambda>n. Inr (OutEndpoint n)),
             DeviceClose = None,
             EndpointWrite = (\<lambda>b. None)\<rparr>"

text \<open>The handle \<open>NewUSBPrinter\<close> returns for that printer.\<close>

definition usb_handle :: USBPrinter where
  "usb_handle = \<lparr>ctx = None, dev = Some (Device usbVendorID usbProductID),
                 intf = \<lparr>Endpoints = [ep_in, ep_out]\<rparr>,
                 outEP = OutEndpoint 2, claimed = True\<rparr>"

text \<open>The same printer with an interface that has no OUT endpoint.\<close>

definition usb_no_out :: usb_env where
  "usb_no_out = usb_ok\<lparr>DefaultInterface := Inr \<lparr>Endpoints = [ep_in]\<rparr>\<rparr>"

text \<open>The same printer in the other runs that fail: the lookup fails, no printer is
  attached, auto-detach is refused, the interface cannot be claimed, and the OUT endpoint
  cannot be opened.\<close>

definition usb_lookup_fails :: usb_env where
  "usb_lookup_fails = usb_ok\<lparr>OpenDeviceWithVIDPID := (\<lambda>v p. LookupFailed ''libusb: io'')\<rparr>"

definition usb_absent :: usb_env where
  "usb_absent = usb_ok\<lparr>OpenDeviceWithVIDPID := (\<lambda>v p. NoMatch)\<rparr>"

definition usb_detach_fails :: usb_env where
  "usb_detach_fails = usb_ok\<lparr>SetAutoDetach := Some ''denied''\<rparr>"

definition usb_claim_fails :: usb_env where
  "usb_claim_fails = usb_ok\<lparr>DefaultInterface := Inl ''busy''\<rparr>"

definition usb_ep_open_fails :: usb_env where
  "usb_ep_open_fails = usb_ok\<lparr>OpenOutEndpoint := (\<lambda>n. Inl ''stall'')\<rparr>"

subsection \<open>The acquisition steps in the specification's words\<close>

text \<open>
  The steps of an open, read off the outcomes of the library calls alone: the context is
  always acquired; the device when the lookup finds it; the interface when, after that,
  auto-detach is not refused (it is only requested on Linux) and the claim succeeds.
\<close>

definition auto_detach_ok :: "usb_env \<Rightarrow> bool" where
  "auto_detach_ok env = (GOOS env \<noteq> ''linux'' \<or> SetAutoDetach env = None)"

definition acquisition_steps :: "usb_env \<Rightarrow> resource list" where
  "acquisition_steps env =
     (case OpenDeviceWithVIDPID env usbVendorID usbProductID of
        Found d \<Rightarrow>
          (if auto_detach_ok env
           then (case DefaultInterface env of
                   Inl e \<Rightarrow> [UsbContext, UsbDevice]
                 | Inr i \<Rightarrow> [UsbContext, UsbDevice, UsbInterface])
           else [UsbContext, UsbDevice])
      | _ \<Rightarrow> [UsbContext])"

text \<open>The first endpoint of the interface whose direction is OUT, if there is one.\<close>

definition first_out_endpoint :: "Interface \<Rightarrow> EndpointDesc option" where
  "first_out_endpoint i = find (\<lambda>ep. Direction ep = EndpointDirectionOut) (Endpoints i)"

section \<open>The network printer (main.go)\<close>

datatype Conn = Conn string

text \<open>
  The outcome of the network calls: \<^verbatim>\<open>net.Dial(network, addr)\<close>, the copy of the
  whole buffer to the connection (\<^verbatim>\<open>io.Copy\<close>), and \<^verbatim>\<open>conn.Close()\<close>.
\<close>

record net_env =
  Dial :: "string \<Rightarrow> string \<Rightarrow> string + Conn"
  ConnWrite :: "string \<Rightarrow> string option"
  ConnClose :: "string option"

datatype net_event = SocketWrite Conn string | SocketClose Conn

record NetworkPrinter =
  conn :: "Conn option"
  addr :: string

definition NewNetworkPrinter :: "net_env \<Rightarrow> string \<Rightarrow> error + NetworkPrinter" where
  "NewNetworkPrinter env a =
     (case Dial env ''tcp'' a of
        Inl e \<Rightarrow> Inl (FailedToConnect e)
      | Inr c \<Rightarrow> Inr \<lparr>conn = Some c, addr = a\<rparr>)"

definition NetworkPrinter_SendZPL ::
  "net_env \<Rightarrow> NetworkPrinter \<Rightarrow> string \<Rightarrow> error option \<times> net_event list" where
  "NetworkPrinter_SendZPL env p zpl =
     (case conn p of
        None \<Rightarrow> (Some NotConnected, [])
      | Some c \<Rightarrow>
          (let zpl' = (if \<not> HasSuffix zpl LF then zpl @ LF else zpl)
           in (map_option Lib (ConnWrite env zpl'), [SocketWrite c zpl'])))"

definition NetworkPrinter_Close ::
  "net_env \<Rightarrow> NetworkPrinter \<Rightarrow> (error option \<times> NetworkPrinter) \<times> net_event list" where
  "NetworkPrinter_Close env p =
     (case conn p of
        Some c \<Rightarrow> ((map_option Lib (ConnClose env), p\<lparr>conn := None\<rparr>), [SocketClose c])
      | None \<Rightarrow> ((None, p), []))"

text \<open>A reachable printer, and a handle connected to it.\<close>

definition net_ok :: net_env where
  "net_ok = \<lparr>Dial = (\<lambda>n a. Inr (Conn a)), ConnWrite = (\<lambda>b. None), ConnClose = None\<rparr>"

definition net_unreachable :: net_env where
  "net_unreachable = net_ok\<lparr>Dial := (\<lambda>n a. Inl ''connection refused'')\<rparr>"

definition net_handle :: NetworkPrinter where
  "net_handle = \<lparr>conn = Some (Conn ''192.168.1.100:9100''), addr = ''192.168.1.100:9100''\<rparr>"

section \<open>The serial command-line program\<close>

subsection \<open>Flags, configuration and the world of one run\<close>

text \<open>
  The command line after \<^verbatim>\<open>flag.Parse()\<close>: for each flag the value given, or
  \<open>None\<close> when the flag is absent; \<^verbatim>\<open>flag.String(name, dflt, ...)\<close> and
  \<^verbatim>\<open>flag.Int(name, dflt, ...)\<close> then hold the default.
\<close>

record cmdline =
  port_arg :: "string option"
  baud_arg :: "int option"
  file_arg :: "string option"
  zpl_arg :: "string option"

definition flag_String :: "string \<Rightarrow> string option \<Rightarrow> string" where
  "flag_String dflt given = (case given of None \<Rightarrow> dflt | Some v \<Rightarrow> v)"

definition flag_Int :: "int \<Rightarrow> int option \<Rightarrow> int" where
  "flag_Int dflt given = (case given of None \<Rightarrow> dflt | Some v \<Rightarrow> v)"

datatype parity = ParityNone | ParityOdd | ParityEven | ParityMark | ParitySpace

datatype stop_bits = Stop1 | Stop1Half | Stop2

record Config =
  Name :: string
  Baud :: int
  Size :: nat
  Parity :: parity
  StopBits :: stop_bits

text \<open>
  The outcome of the calls the program makes: \<^verbatim>\<open>serial.OpenPort(config)\<close> (its
  error), \<^verbatim>\<open>os.ReadFile\<close>, the \<open>n\<close>-th \<^verbatim>\<open>port.Write\<close> (counted from 0)
  of given bytes, the lines \<^verbatim>\<open>scanner.Scan()\<close> yields before it returns false,
  \<^verbatim>\<open>scanner.Err()\<close>, and the library function \<^verbatim>\<open>strings.ToLower\<close>.
\<close>

record serial_env =
  OpenPort :: "Config \<Rightarrow> string option"
  ReadFile :: "string \<Rightarrow> string + string"
  PortWrite :: "nat \<Rightarrow> string \<Rightarrow> string option"
  stdin_lines :: "string list"
  scan_error :: "string option"
  ToLower :: "string \<Rightarrow> string"

datatype message =
    Connecting string int
  | ConnectionEstablished
  | SendingFromFile string
  | SendingCommand
  | StartingInteractive
  | Prompt
  | ErrorSendingCommand error
  | CommandSent
  | ErrorReadingInput string
  | ConnectionClosed

datatype serial_event =
    OpenPortCall Config
  | WriteCall string
  | CloseCall
  | ReadFileCall string
  | Print message

text \<open>\<^verbatim>\<open>log.Fatal\<close> prints its message and exits the process with status 1; deferred
  calls do not run.\<close>

datatype fatal =
    PortNameRequired               \<comment> \<open>Port name is required. Use -port flag.\<close>
  | FailedToOpenSerialPort string  \<comment> \<open>Failed to open serial port: ...\<close>
  | FailedToSendZPLFile error      \<comment> \<open>Failed to send ZPL file: ...\<close>
  | FailedToSendZPLCommand error   \<comment> \<open>Failed to send ZPL command: ...\<close>

datatype outcome = Returned | Fatal fatal

subsection \<open>Reading a trace of the serial program\<close>

fun writes :: "serial_event list \<Rightarrow> string list" where
  "writes [] = []"
| "writes (WriteCall b # t) = b # writes t"
| "writes (_ # t) = writes t"

fun opens :: "serial_event list \<Rightarrow> Config list" where
  "opens [] = []"
| "opens (OpenPortCall c # t) = c # opens t"
| "opens (_ # t) = opens t"

text \<open>The per-command reports of the interactive loop, in order.\<close>

fun reports :: "serial_event list \<Rightarrow> message list" where
  "reports [] = []"
| "reports (Print (ErrorSendingCommand e) # t) = ErrorSendingCommand e # reports t"
| "reports (Print CommandSent # t) = CommandSent # reports t"
| "reports (_ # t) = reports t"

subsection \<open>sendZpl, sendZplFromFile and main\<close>

definition port_Write ::
  "serial_env \<Rightarrow> serial_event list \<Rightarrow> string \<Rightarrow> string option \<times> serial_event list" where
  "port_Write env t b = (PortWrite env (length (writes t)) b, t @ [WriteCall b])"

definition sendZpl ::
  "serial_env \<Rightarrow> serial_event list \<Rightarrow> string \<Rightarrow> error option \<times> serial_event list" where
  "sendZpl env t zpl =
     (let zpl' = (if \<not> HasSuffix zpl LF then zpl @ LF else zpl);
          (err, t') = port_Write env t zpl'
      in (map_option Lib err, t'))"

definition sendZplFromFile ::
  "serial_env \<Rightarrow> serial_event list \<Rightarrow> string \<Rightarrow> error option \<times> serial_event list" where
  "sendZplFromFile env t filename =
     (case ReadFile env filename of
        Inl e \<Rightarrow> (Some (FailedToReadFile e), t @ [ReadFileCall filename])
      | Inr data \<Rightarrow>
          (case port_Write env (t @ [ReadFileCall filename]) data of
             (Some e, t') \<Rightarrow> (Some (FailedToSendData e), t')
           | (None, t') \<Rightarrow> (None, t')))"

text \<open>The interactive loop over the lines the scanner yields; the empty list is
  \<^verbatim>\<open>scanner.Scan()\<close> returning false.\<close>

fun interactive :: "serial_env \<Rightarrow> serial_event list \<Rightarrow> string list \<Rightarrow> serial_event list" where
  "interactive env t [] = t @ [Print Prompt]"
| "interactive env t (input # rest) =
     (if ToLower env input = ''exit'' then t @ [Print Prompt]
      else if input \<noteq> []
      then (case sendZpl env (t @ [Print Prompt]) input of
              (Some e, t') \<Rightarrow> interactive env (t' @ [Print (ErrorSendingCommand e)]) rest
            | (None, t') \<Rightarrow> interactive env (t' @ [Print CommandSent]) rest)
      else interactive env (t @ [Print Prompt]) rest)"

definition main :: "serial_env \<Rightarrow> cmdline \<Rightarrow> outcome \<times> serial_event list" where
  "main env args =
     (let portName = flag_String [] (port_arg args);
          baudRate = flag_Int 9600 (baud_arg args);
          zplFile = flag_String [] (file_arg args);
          zplText = flag_String [] (zpl_arg args)
      in if portName = [] then (Fatal PortNameRequired, [])
         else
           (let config = \<lparr>Name = portName, Baud = baudRate, Size = 8,
                          Parity = ParityNone, StopBits = Stop1\<rparr>;
                t0 = [Print (Connecting portName baudRate), OpenPortCall config]
            in case OpenPort env config of
                 Some e \<Rightarrow> (Fatal (FailedToOpenSerialPort e), t0)
               | None \<Rightarrow>
                   (let t1 = t0 @ [Print ConnectionEstablished]
                    in if zplFile \<noteq> []
                       then (case sendZplFromFile env (t1 @ [Print (SendingFromFile zplFile)])
                                    zplFile of
                               (Some e, t) \<Rightarrow> (Fatal (FailedToSendZPLFile e), t)
                             | (None, t) \<Rightarrow> (Returned, t @ [Print ConnectionClosed, CloseCall]))
                       else if zplText \<noteq> []
                       then (case sendZpl env (t1 @ [Print SendingCommand]) zplText of
                               (Some e, t) \<Rightarrow> (Fatal (FailedToSendZPLCommand e), t)
                             | (None, t) \<Rightarrow> (Returned, t @ [Print ConnectionClosed, CloseCall]))
                       else
                         (let t = interactive env (t1 @ [Print StartingInteractive])
                                    (stdin_lines env);
                              t' = (case scan_error env of
                                      Some e \<Rightarrow> t @ [Print (ErrorReadingInput e)]
                                    | None \<Rightarrow> t)
                          in (Returned, t' @ [Print ConnectionClosed, CloseCall])))))"

subsection \<open>Sample runs of the serial program\<close>

text \<open>Lower-casing of the ASCII letters, as \<^verbatim>\<open>strings.ToLower\<close> does on a string of
  ASCII bytes.\<close>

definition ascii_lower :: "char \<Rightarrow> char" where
  "ascii_lower c =
     (if 65 \<le> (of_char c :: nat) \<and> (of_char c :: nat) \<le> 90
      then char_of ((of_char c :: nat) + 32) else c)"

definition serial_ok :: serial_env where
  "serial_ok = \<lparr>OpenPort = (\<lambda>c. None),
                ReadFile = (\<lambda>f. Inr ''^XA^XZ''),
                PortWrite = (\<lambda>n b. None),
                stdin_lines = [],
                scan_error = None,
                ToLower = map ascii_lower\<rparr>"

definition no_flags :: cmdline where
  "no_flags = \<lparr>port_arg = None, baud_arg = None, file_arg = None, zpl_arg = None\<rparr>"

text \<open>Lines typed at the prompt, and a port whose first write fails.\<close>

definition typed_lines :: "string list" where
  "typed_lines = [''^XA'', [], ''exit now'', ''^XZ'', ''Exit'', ''~HS'']"

definition first_write_fails :: "nat \<Rightarrow> string \<Rightarrow> string option" where
  "first_write_fails n b = (if n = 0 then Some ''timeout'' else None)"

section \<open>The framing rule in the specification's words\<close>

definition ends_with_line_feed :: "string \<Rightarrow> bool" where
  "ends_with_line_feed p = (p \<noteq> [] \<and> last p = CHR 0x0A)"

definition framed :: "string \<Rightarrow> string" where
  "framed p = (if ends_with_line_feed p then p else p @ [CHR 0x0A])"

text \<open>What the interactive loop should report for the payloads it sends, the first of
  them being write number \<open>k\<close>.\<close>

fun report_each :: "serial_env \<Rightarrow> nat \<Rightarrow> string list \<Rightarrow> message list" where
  "report_each env k [] = []"
| "report_each env k (b # bs) =
     (case PortWrite env k b of
        Some e \<Rightarrow> ErrorSendingCommand (Lib e)
      | None \<Rightarrow> CommandSent) # report_each env (Suc k) bs"

section \<open>Facts about the model\<close>

lemma deferred_ctx_close_Some:
  "deferred_ctx_close (Some c) t = t @ [Release UsbContext]"
  by (simp add: deferred_ctx_close_def)

lemma deferred_ctx_close_None:
  "deferred_ctx_close None t = t"
  by (simp add: deferred_ctx_close_def)

text \<open>The suffix test of the code against \<^verbatim>\<open>"\n"\<close> is the specification's
  ``ends with a line-feed byte''.\<close>

lemma HasSuffix_LF: "HasSuffix s LF = ends_with_line_feed s"
proof (cases s rule: rev_cases)
  case Nil
  then show ?thesis by (simp add: HasSuffix_def LF_def ends_with_line_feed_def)
next
  case (snoc ys y)
  then show ?thesis by (simp add: HasSuffix_def LF_def ends_with_line_feed_def)
qed

lemma frame_framed: "(if \<not> HasSuffix zpl LF then zpl @ LF else zpl) = framed zpl"
  unfolding HasSuffix_LF framed_def by (simp add: LF_def)

lemma writes_append: "writes (t @ u) = writes t @ writes u"
  by (induction t rule: writes.induct) simp_all

lemma opens_append: "opens (t @ u) = opens t @ opens u"
  by (induction t rule: opens.induct) simp_all

lemma reports_append: "reports (t @ u) = reports t @ reports u"
  by (induction t rule: reports.induct) simp_all

lemma sendZpl_eq:
  "sendZpl env t zpl =
     (map_option Lib (PortWrite env (length (writes t)) (framed zpl)),
      t @ [WriteCall (framed zpl)])"
  by (simp add: sendZpl_def port_Write_def frame_framed Let_def)

lemma sendZplFromFile_trace:
  "snd (sendZplFromFile env t f) =
     (case ReadFile env f of
        Inl e \<Rightarrow> t @ [ReadFileCall f]
      | Inr data \<Rightarrow> t @ [ReadFileCall f, WriteCall data])"
  by (simp add: sendZplFromFile_def port_Write_def split: sum.splits option.splits)

text \<open>The interactive loop, by induction on the lines read: what it writes, that it
  opens nothing, and what it reports.\<close>

lemma interactive_writes:
  "writes (interactive env t ls) =
     writes t @ map framed (filter (\<lambda>l. l \<noteq> [])
                  (takeWhile (\<lambda>l. ToLower env l \<noteq> ''exit'') ls))"
  by (induction ls arbitrary: t)
     (auto simp: sendZpl_eq writes_append split: option.splits)

lemma interactive_opens: "opens (interactive env t ls) = opens t"
  by (induction ls arbitrary: t)
     (auto simp: sendZpl_eq opens_append split: option.splits)

lemma interactive_reports:
  "reports (interactive env t ls) =
     reports t @ report_each env (length (writes t))
       (map framed (filter (\<lambda>l. l \<noteq> [])
          (takeWhile (\<lambda>l. ToLower env l \<noteq> ''exit'') ls)))"
  by (induction ls arbitrary: t)
     (auto simp: sendZpl_eq writes_append reports_append split: option.splits)

lemma main_with_port:
  assumes "flag_String [] (port_arg args) \<noteq> []"
  shows "opens (snd (main env args)) =
           [\<lparr>Name = flag_String [] (port_arg args), Baud = flag_Int 9600 (baud_arg args),
             Size = 8, Parity = ParityNone, StopBits = Stop1\<rparr>]"
proof -
  have f: "opens (snd (sendZplFromFile env t f)) = opens t" for t f
    by (simp add: sendZplFromFile_trace opens_append split: sum.splits)
  have f': "opens t' = opens t" if "sendZplFromFile env t f = (r, t')" for t f r t'
    using f [of t f] that by simp
  show ?thesis
    using assms
    by (auto simp: main_def Let_def sendZpl_eq opens_append interactive_opens f'
             split: option.splits prod.splits)
qed

lemma ascii_lower_simps:
  "ascii_lower (CHR 0x5E) = CHR 0x5E"
  "ascii_lower (CHR 0x58) = CHR 0x78"
  "ascii_lower (CHR 0x41) = CHR 0x61"
  "ascii_lower (CHR 0x5A) = CHR 0x7A"
  "ascii_lower (CHR 0x45) = CHR 0x65"
  "ascii_lower (CHR 0x49) = CHR 0x69"
  "ascii_lower (CHR 0x54) = CHR 0x74"
  "ascii_lower (CHR 0x48) = CHR 0x68"
  "ascii_lower (CHR 0x53) = CHR 0x73"
  "ascii_lower (CHR 0x7E) = CHR 0x7E"
  "ascii_lower (CHR 0x65) = CHR 0x65"
  "ascii_lower (CHR 0x78) = CHR 0x78"
  "ascii_lower (CHR 0x69) = CHR 0x69"
  "ascii_lower (CHR 0x74) = CHR 0x74"
  "ascii_lower (CHR 0x6E) = CHR 0x6E"
  "ascii_lower (CHR 0x6F) = CHR 0x6F"
  "ascii_lower (CHR 0x77) = CHR 0x77"
  "ascii_lower (CHR 0x20) = CHR 0x20"
  by code_simp+

section \<open>Rollback of a failed USB open\<close>

text \<open>The endpoint loop finds the first OUT endpoint and opens it.\<close>

lemma find_out_endpoint_find:
  "find_out_endpoint env eps =
     (case find (\<lambda>ep. Direction ep = EndpointDirectionOut) eps of
        None \<Rightarrow> Inr None
      | Some ep \<Rightarrow> (case OpenOutEndpoint env (Number ep) of
                     Inl e \<Rightarrow> Inl e
                   | Inr oe \<Rightarrow> Inr (Some oe)))"
  by (induction eps) simp_all

text \<open>Each way an open fails, with the error returned and the calls made.\<close>

lemma lookup_failure:
  assumes "OpenDeviceWithVIDPID env usbVendorID usbProductID = LookupFailed e"
  shows "NewUSBPrinter env =
           (Inl (FailedToOpenDevice e), [Acquire UsbContext, Release UsbContext])"
  using assms by (simp add: NewUSBPrinter_def deferred_ctx_close_Some)

lemma no_device:
  assumes "OpenDeviceWithVIDPID env usbVendorID usbProductID = NoMatch"
  shows "NewUSBPrinter env = (Inl PrinterNotFound, [Acquire UsbContext, Release UsbContext])"
  using assms by (simp add: NewUSBPrinter_def deferred_ctx_close_Some)

lemma auto_detach_failure:
  assumes "OpenDeviceWithVIDPID env usbVendorID usbProductID = Found d"
      and "GOOS env = ''linux''" and "SetAutoDetach env = Some e"
  shows "NewUSBPrinter env =
           (Inl (FailedToSetAutoDetach e),
            [Acquire UsbContext, Acquire UsbDevice, Release UsbDevice, Release UsbContext])"
  using assms by (simp add: NewUSBPrinter_def deferred_ctx_close_Some)

lemma claim_failure:
  assumes "OpenDeviceWithVIDPID env usbVendorID usbProductID = Found d"
      and "auto_detach_ok env" and "DefaultInterface env = Inl e"
  shows "NewUSBPrinter env =
           (Inl (FailedToClaimInterface e),
            [Acquire UsbContext, Acquire UsbDevice, Release UsbDevice, Release UsbContext])"
  using assms by (auto simp: NewUSBPrinter_def deferred_ctx_close_Some auto_detach_ok_def)

lemma endpoint_open_failure:
  assumes "OpenDeviceWithVIDPID env usbVendorID usbProductID = Found d"
      and "auto_detach_ok env" and "DefaultInterface env = Inr i"
      and "first_out_endpoint i = Some ep" and "OpenOutEndpoint env (Number ep) = Inl e"
  shows "NewUSBPrinter env =
           (Inl (FailedToOpenOutEndpoint e),
            [Acquire UsbContext, Acquire UsbDevice, Acquire UsbInterface,
             Release UsbInterface, Release UsbDevice, Release UsbContext])"
  using assms
  by (auto simp: NewUSBPrinter_def deferred_ctx_close_Some auto_detach_ok_def
                 find_out_endpoint_find first_out_endpoint_def)

lemma no_out_endpoint:
  assumes "OpenDeviceWithVIDPID env usbVendorID usbProductID = Found d"
      and "auto_detach_ok env" and "DefaultInterface env = Inr i"
      and "first_out_endpoint i = None"
  shows "NewUSBPrinter env =
           (Inl NoOutEndpointFound,
            [Acquire UsbContext, Acquire UsbDevice, Acquire UsbInterface,
             Release UsbInterface, Release UsbDevice, Release UsbContext])"
  using assms
  by (auto simp: NewUSBPrinter_def deferred_ctx_close_Some auto_detach_ok_def
                 find_out_endpoint_find first_out_endpoint_def)

text \<open>Whatever the failure, the calls made are the steps the library let through,
  then their releases from the last to the first.\<close>

lemma failure_trace:
  assumes "fst (NewUSBPrinter env) = Inl err"
  shows "snd (NewUSBPrinter env) =
           map Acquire (acquisition_steps env) @ map Release (rev (acquisition_steps env))"
  using assms
  by (auto simp: NewUSBPrinter_def Let_def acquisition_steps_def auto_detach_ok_def
                 deferred_ctx_close_Some deferred_ctx_close_None
           split: lookup.splits option.splits sum.splits if_splits)

lemma failure_holds_nothing:
  assumes "fst (NewUSBPrinter env) = Inl err"
  shows "held (snd (NewUSBPrinter env)) = []"
  using assms
  by (auto simp: NewUSBPrinter_def Let_def held_def deferred_ctx_close_Some
                 deferred_ctx_close_None
           split: lookup.splits option.splits sum.splits if_splits)

text \<open>
  C1. For each failure of \<open>NewUSBPrinter\<close>, named by the outcome of the library calls
  that causes it (the lookup fails; it finds no device; auto-detach is refused on Linux;
  the interface claim fails; the first OUT endpoint cannot be opened; the interface has no
  OUT endpoint), the code returns that failure's error after these calls and no others:
  the acquisitions that succeeded before the failing step (context; then device; then
  interface), followed by the release of every one of them, the last acquired first and
  the context last. And in general: when \<open>NewUSBPrinter\<close> returns an error, its calls are
  the acquisition steps the library let through, as read off the library's outcomes,
  followed by their releases in exactly the reverse order, and no resource is held.
\<close>

theorem NewUSBPrinter_failure_rolls_back:
  "(OpenDeviceWithVIDPID env usbVendorID usbProductID = LookupFailed e \<longrightarrow>
      NewUSBPrinter env =
        (Inl (FailedToOpenDevice e), [Acquire UsbContext, Release UsbContext]))
   \<and> (OpenDeviceWithVIDPID env usbVendorID usbProductID = NoMatch \<longrightarrow>
      NewUSBPrinter env =
        (Inl PrinterNotFound, [Acquire UsbContext, Release UsbContext]))
   \<and> (OpenDeviceWithVIDPID env usbVendorID usbProductID = Found d
        \<and> GOOS env = ''linux'' \<and> SetAutoDetach env = Some e \<longrightarrow>
      NewUSBPrinter env =
        (Inl (FailedToSetAutoDetach e),
         [Acquire UsbContext, Acquire UsbDevice, Release UsbDevice, Release UsbContext]))
   \<and> (OpenDeviceWithVIDPID env usbVendorID usbProductID = Found d
        \<and> auto_detach_ok env \<and> DefaultInterface env = Inl e \<longrightarrow>
      NewUSBPrinter env =
        (Inl (FailedToClaimInterface e),
         [Acquire UsbContext, Acquire UsbDevice, Release UsbDevice, Release UsbContext]))
   \<and> (OpenDeviceWithVIDPID env usbVendorID usbProductID = Found d
        \<and> auto_detach_ok env \<and> DefaultInterface env = Inr i
        \<and> first_out_endpoint i = Some ep \<and> OpenOutEndpoint env (Number ep) = Inl e \<longrightarrow>
      NewUSBPrinter env =
        (Inl (FailedToOpenOutEndpoint e),
         [Acquire UsbContext, Acquire UsbDevice, Acquire UsbInterface,
          Release UsbInterface, Release UsbDevice, Release UsbContext]))
   \<and> (OpenDeviceWithVIDPID env usbVendorID usbProductID = Found d
        \<and> auto_detach_ok env \<and> DefaultInterface env = Inr i
        \<and> first_out_endpoint i = None \<longrightarrow>
      NewUSBPrinter env =
        (Inl NoOutEndpointFound,
         [Acquire UsbContext, Acquire UsbDevice, Acquire UsbInterface,
          Release UsbInterface, Release UsbDevice, Release UsbContext]))
   \<and> (fst (NewUSBPrinter env) = Inl err \<longrightarrow>
      snd (NewUSBPrinter env) =
        map Acquire (acquisition_steps env) @ map Release (rev (acquisition_steps env))
      \<and> held (snd (NewUSBPrinter env)) = [])"
proof (intro conjI impI)
  assume "OpenDeviceWithVIDPID env usbVendorID usbProductID = LookupFailed e"
  then show "NewUSBPrinter env =
        (Inl (FailedToOpenDevice e), [Acquire UsbContext, Release UsbContext])"
    by (rule lookup_failure)
next
  assume "OpenDeviceWithVIDPID env usbVendorID usbProductID = NoMatch"
  then show "NewUSBPrinter env =
        (Inl PrinterNotFound, [Acquire UsbContext, Release UsbContext])"
    by (rule no_device)
next
  assume "OpenDeviceWithVIDPID env usbVendorID usbProductID = Found d
        \<and> GOOS env = ''linux'' \<and> SetAutoDetach env = Some e"
  then show "NewUSBPrinter env =
        (Inl (FailedToSetAutoDetach e),
         [Acquire UsbContext, Acquire UsbDevice, Release UsbDevice, Release UsbContext])"
    by (simp add: auto_detach_failure)
next
  assume "OpenDeviceWithVIDPID env usbVendorID usbProductID = Found d
        \<and> auto_detach_ok env \<and> DefaultInterface env = Inl e"
  then show "NewUSBPrinter env =
        (Inl (FailedToClaimInterface e),
         [Acquire UsbContext, Acquire UsbDevice, Release UsbDevice, Release UsbContext])"
    by (simp add: claim_failure)
next
  assume "OpenDeviceWithVIDPID env usbVendorID usbProductID = Found d
        \<and> auto_detach_ok env \<and> DefaultInterface env = Inr i
        \<and> first_out_endpoint i = Some ep \<and> OpenOutEndpoint env (Number ep) = Inl e"
  then show "NewUSBPrinter env =
        (Inl (FailedToOpenOutEndpoint e),
         [Acquire UsbContext, Acquire UsbDevice, Acquire UsbInterface,
          Release UsbInterface, Release UsbDevice, Release UsbContext])"
    by (simp add: endpoint_open_failure)
next
  assume "OpenDeviceWithVIDPID env usbVendorID usbProductID = Found d
        \<and> auto_detach_ok env \<and> DefaultInterface env = Inr i
        \<and> first_out_endpoint i = None"
  then show "NewUSBPrinter env =
        (Inl NoOutEndpointFound,
         [Acquire UsbContext, Acquire UsbDevice, Acquire UsbInterface,
          Release UsbInterface, Release UsbDevice, Release UsbContext])"
    by (simp add: no_out_endpoint)
next
  assume "fst (NewUSBPrinter env) = Inl err"
  then show "snd (NewUSBPrinter env) =
        map Acquire (acquisition_steps env) @ map Release (rev (acquisition_steps env))"
    by (rule failure_trace)
next
  assume "fst (NewUSBPrinter env) = Inl err"
  then show "held (snd (NewUSBPrinter env)) = []"
    by (rule failure_holds_nothing)
qed

text \<open>One run for each failure: the lookup fails, no printer is attached, auto-detach
  is refused, the claim fails, the OUT endpoint does not open, and there is no OUT
  endpoint.\<close>

theorem NewUSBPrinter_failure_rolls_back_witness:
  "NewUSBPrinter usb_lookup_fails =
     (Inl (FailedToOpenDevice ''libusb: io''), [Acquire UsbContext, Release UsbContext])
   \<and> NewUSBPrinter usb_absent =
     (Inl PrinterNotFound, [Acquire UsbContext, Release UsbContext])
   \<and> NewUSBPrinter usb_detach_fails =
     (Inl (FailedToSetAutoDetach ''denied''),
      [Acquire UsbContext, Acquire UsbDevice, Release UsbDevice, Release UsbContext])
   \<and> NewUSBPrinter usb_claim_fails =
     (Inl (FailedToClaimInterface ''busy''),
      [Acquire UsbContext, Acquire UsbDevice, Release UsbDevice, Release UsbContext])
   \<and> NewUSBPrinter usb_ep_open_fails =
     (Inl (FailedToOpenOutEndpoint ''stall''),
      [Acquire UsbContext, Acquire UsbDevice, Acquire UsbInterface,
       Release UsbInterface, Release UsbDevice, Release UsbContext])
   \<and> NewUSBPrinter usb_no_out =
     (Inl NoOutEndpointFound,
      [Acquire UsbContext, Acquire UsbDevice, Acquire UsbInterface,
       Release UsbInterface, Release UsbDevice, Release UsbContext])
   \<and> acquisition_steps usb_detach_fails = [UsbContext, UsbDevice]
   \<and> held (snd (NewUSBPrinter usb_detach_fails)) = []"
proof -
  let ?dev = "Device usbVendorID usbProductID"
  let ?i = "\<lparr>Endpoints = [ep_in, ep_out]\<rparr>"
  have 1: "OpenDeviceWithVIDPID usb_lookup_fails usbVendorID usbProductID
             = LookupFailed ''libusb: io''"
    by (simp add: usb_lookup_fails_def usb_ok_def)
  have 2: "OpenDeviceWithVIDPID usb_absent usbVendorID usbProductID = NoMatch"
    by (simp add: usb_absent_def usb_ok_def)
  have 3: "OpenDeviceWithVIDPID usb_detach_fails usbVendorID usbProductID = Found ?dev
           \<and> GOOS usb_detach_fails = ''linux''
           \<and> SetAutoDetach usb_detach_fails = Some ''denied''"
    by (simp add: usb_detach_fails_def usb_ok_def)
  have 4: "OpenDeviceWithVIDPID usb_claim_fails usbVendorID usbProductID = Found ?dev
           \<and> auto_detach_ok usb_claim_fails
           \<and> DefaultInterface usb_claim_fails = Inl ''busy''"
    by (simp add: usb_claim_fails_def usb_ok_def auto_detach_ok_def)
  have 5: "OpenDeviceWithVIDPID usb_ep_open_fails usbVendorID usbProductID = Found ?dev
           \<and> auto_detach_ok usb_ep_open_fails
           \<and> DefaultInterface usb_ep_open_fails = Inr ?i
           \<and> first_out_endpoint ?i = Some ep_out
           \<and> OpenOutEndpoint usb_ep_open_fails (Number ep_out) = Inl ''stall''"
    by (simp add: usb_ep_open_fails_def usb_ok_def auto_detach_ok_def first_out_endpoint_def
                  ep_in_def ep_out_def)
  have 6: "OpenDeviceWithVIDPID usb_no_out usbVendorID usbProductID = Found ?dev
           \<and> auto_detach_ok usb_no_out
           \<and> DefaultInterface usb_no_out = Inr \<lparr>Endpoints = [ep_in]\<rparr>
           \<and> first_out_endpoint \<lparr>Endpoints = [ep_in]\<rparr> = None"
    by (simp add: usb_no_out_def usb_ok_def auto_detach_ok_def first_out_endpoint_def
                  ep_in_def)
  have s: "acquisition_steps usb_detach_fails = [UsbContext, UsbDevice]"
    by (simp add: acquisition_steps_def usb_detach_fails_def usb_ok_def auto_detach_ok_def)
  note r1 = NewUSBPrinter_failure_rolls_back
              [of usb_lookup_fails "''libusb: io''", THEN conjunct1, rule_format, OF 1]
  note r2 = NewUSBPrinter_failure_rolls_back
              [of usb_absent, THEN conjunct2, THEN conjunct1, rule_format, OF 2]
  note r3 = NewUSBPrinter_failure_rolls_back
              [of usb_detach_fails _ ?dev, THEN conjunct2, THEN conjunct2, THEN conjunct1,
               rule_format, OF 3]
  note r4 = NewUSBPrinter_failure_rolls_back
              [of usb_claim_fails _ ?dev, THEN conjunct2, THEN conjunct2, THEN conjunct2,
               THEN conjunct1, rule_format, OF 4]
  note r5 = NewUSBPrinter_failure_rolls_back
              [of usb_ep_open_fails _ ?dev, THEN conjunct2, THEN conjunct2, THEN conjunct2,
               THEN conjunct2, THEN conjunct1, rule_format, OF 5]
  note r6 = NewUSBPrinter_failure_rolls_back
              [of usb_no_out _ ?dev, THEN conjunct2, THEN conjunct2, THEN conjunct2,
               THEN conjunct2, THEN conjunct2, THEN conjunct1, rule_format, OF 6]
  have f: "fst (NewUSBPrinter usb_detach_fails) = Inl (FailedToSetAutoDetach ''denied'')"
    by (simp add: r3)
  note r7 = NewUSBPrinter_failure_rolls_back
              [of usb_detach_fails, THEN conjunct2, THEN conjunct2, THEN conjunct2,
               THEN conjunct2, THEN conjunct2, THEN conjunct2, rule_format, OF f]
  from r1 r2 r3 r4 r5 r6 r7 s show ?thesis
    by simp
qed

section \<open>Framing of a sent payload\<close>

text \<open>
  C2. On an open handle of either printer, and on the serial port through \<open>sendZpl\<close>,
  one call of send hands the transport exactly one write, of the framed payload: the
  payload followed by one line-feed byte when it does not end with a line feed, the
  payload itself when it does. The payload is a Go string, passed by value and immutable,
  so the caller's copy is the \<open>zpl\<close> of the statement throughout.
\<close>

theorem send_applies_framing_rule:
  "(claimed p \<longrightarrow>
      snd (USBPrinter_SendZPL uenv p zpl) = [BulkWrite (outEP p) (framed zpl)])
   \<and> (conn n = Some c \<longrightarrow>
      snd (NetworkPrinter_SendZPL nenv n zpl) = [SocketWrite c (framed zpl)])
   \<and> writes (snd (sendZpl senv t zpl)) = writes t @ [framed zpl]
   \<and> (\<not> ends_with_line_feed zpl \<longrightarrow> framed zpl = zpl @ [CHR 0x0A])
   \<and> (ends_with_line_feed zpl \<longrightarrow> framed zpl = zpl)"
  by (simp add: USBPrinter_SendZPL_def NetworkPrinter_SendZPL_def sendZpl_eq frame_framed
                writes_append Let_def framed_def)

theorem send_applies_framing_rule_witness:
  "claimed usb_handle
   \<and> snd (USBPrinter_SendZPL usb_ok usb_handle ''^XA^FS^XZ'') =
       [BulkWrite (OutEndpoint 2) (''^XA^FS^XZ'' @ [CHR 0x0A])]
   \<and> conn net_handle = Some (Conn ''192.168.1.100:9100'')
   \<and> snd (NetworkPrinter_SendZPL net_ok net_handle ''^XA^FS^XZ'') =
       [SocketWrite (Conn ''192.168.1.100:9100'') (''^XA^FS^XZ'' @ [CHR 0x0A])]
   \<and> writes (snd (sendZpl serial_ok [] ''^XA^FS^XZ'')) = [''^XA^FS^XZ'' @ [CHR 0x0A]]
   \<and> \<not> ends_with_line_feed ''^XA^FS^XZ''"
  using send_applies_framing_rule [of usb_handle usb_ok "''^XA^FS^XZ''" net_handle
          "Conn ''192.168.1.100:9100''" net_ok serial_ok "[]"]
  by (simp add: usb_handle_def net_handle_def ends_with_line_feed_def)

section \<open>Ownership of the USB context\<close>

text \<open>
  \<open>NewUSBPrinter\<close> sets its variable \<open>ctx\<close> to nil before it builds the handle from it,
  so every handle it returns has a nil context, and \<open>Close\<close> of such a handle never
  closes a context.
\<close>

lemma NewUSBPrinter_handle_has_no_context:
  "fst (NewUSBPrinter env) = Inr p \<Longrightarrow> ctx p = None"
  by (auto simp: NewUSBPrinter_def Let_def
           split: lookup.splits option.splits sum.splits if_splits)

lemma Close_without_context:
  "ctx p = None \<Longrightarrow> Release UsbContext \<notin> set (snd (USBPrinter_Close env p))"
  by (simp add: USBPrinter_Close_def Let_def split: prod.splits)

text \<open>
  C3. The claim is that after a successful open the handle owns the context and that its
  \<open>Close\<close> releases the interface, then the device, then the context. On a printer that
  opens without trouble the code returns a handle whose \<open>ctx\<close> is nil; its \<open>Close\<close>
  releases the interface and the device and stops there, and the context acquired by the
  open is still held after both calls.
\<close>

theorem NewUSBPrinter_success_loses_context:
  "NewUSBPrinter usb_ok =
     (Inr usb_handle, [Acquire UsbContext, Acquire UsbDevice, Acquire UsbInterface])
   \<and> ctx usb_handle = None
   \<and> snd (USBPrinter_Close usb_ok usb_handle) = [Release UsbInterface, Release UsbDevice]
   \<and> held (snd (NewUSBPrinter usb_ok) @ snd (USBPrinter_Close usb_ok usb_handle))
       = [UsbContext]"
proof -
  have a: "NewUSBPrinter usb_ok =
     (Inr usb_handle, [Acquire UsbContext, Acquire UsbDevice, Acquire UsbInterface])"
    by (simp add: NewUSBPrinter_def usb_ok_def usb_handle_def ep_in_def ep_out_def Let_def
                  deferred_ctx_close_def)
  have b: "snd (USBPrinter_Close usb_ok usb_handle) = [Release UsbInterface, Release UsbDevice]"
    by (simp add: USBPrinter_Close_def usb_handle_def Let_def)
  show ?thesis
    by (simp add: a b held_def) (simp add: usb_handle_def)
qed

section \<open>Closing a handle twice\<close>

text \<open>
  C4, as the code has it. Of two successive calls of \<open>Close\<close> on a handle of either
  printer, the second returns no error, makes no release call and leaves the handle as
  it found it. The first returns what the close of the device (of the connection)
  returned, so it succeeds exactly when that close does, or when there was nothing left
  to close.
\<close>

theorem close_twice:
  assumes "USBPrinter_Close env1 p = ((e1, p1), t1)"
      and "USBPrinter_Close env2 p1 = ((e2, p2), t2)"
      and "NetworkPrinter_Close nenv1 n = ((f1, n1), u1)"
      and "NetworkPrinter_Close nenv2 n1 = ((f2, n2), u2)"
  shows "e2 = None \<and> t2 = [] \<and> p2 = p1 \<and> f2 = None \<and> u2 = [] \<and> n2 = n1
         \<and> e1 = (if dev p = None then None else map_option Lib (DeviceClose env1))
         \<and> f1 = (if conn n = None then None else map_option Lib (ConnClose nenv1))"
  using assms
  by (auto simp: USBPrinter_Close_def NetworkPrinter_Close_def Let_def
           split: if_splits option.splits)

theorem close_twice_witness:
  "USBPrinter_Close usb_ok usb_handle =
     ((None, usb_handle\<lparr>dev := None, claimed := False\<rparr>),
      [Release UsbInterface, Release UsbDevice])
   \<and> USBPrinter_Close usb_ok (usb_handle\<lparr>dev := None, claimed := False\<rparr>) =
     ((None, usb_handle\<lparr>dev := None, claimed := False\<rparr>), [])
   \<and> NetworkPrinter_Close net_ok net_handle =
     ((None, net_handle\<lparr>conn := None\<rparr>), [SocketClose (Conn ''192.168.1.100:9100'')])
   \<and> NetworkPrinter_Close net_ok (net_handle\<lparr>conn := None\<rparr>) =
     ((None, net_handle\<lparr>conn := None\<rparr>), [])"
proof -
  have a: "USBPrinter_Close usb_ok usb_handle =
     ((None, usb_handle\<lparr>dev := None, claimed := False\<rparr>),
      [Release UsbInterface, Release UsbDevice])"
    by (simp add: USBPrinter_Close_def usb_handle_def usb_ok_def Let_def)
  obtain e2 p2 t2 where
    b: "USBPrinter_Close usb_ok (usb_handle\<lparr>dev := None, claimed := False\<rparr>) = ((e2, p2), t2)"
    by (metis prod.exhaust)
  have c: "NetworkPrinter_Close net_ok net_handle =
     ((None, net_handle\<lparr>conn := None\<rparr>), [SocketClose (Conn ''192.168.1.100:9100'')])"
    by (simp add: NetworkPrinter_Close_def net_handle_def net_ok_def)
  obtain f2 n2 u2 where
    d: "NetworkPrinter_Close net_ok (net_handle\<lparr>conn := None\<rparr>) = ((f2, n2), u2)"
    by (metis prod.exhaust)
  from close_twice [OF a b c d] a b c d show ?thesis
    by simp
qed

text \<open>The first call does not always succeed: when the close of the device, or of the
  connection, fails, \<open>Close\<close> returns that error.\<close>

theorem first_close_can_fail:
  "fst (fst (USBPrinter_Close (usb_ok\<lparr>DeviceClose := Some ''busy''\<rparr>) usb_handle))
     = Some (Lib ''busy'')
   \<and> fst (fst (NetworkPrinter_Close (net_ok\<lparr>ConnClose := Some ''reset''\<rparr>) net_handle))
     = Some (Lib ''reset'')"
  by (simp add: USBPrinter_Close_def NetworkPrinter_Close_def usb_handle_def usb_ok_def
                net_handle_def net_ok_def Let_def)

section \<open>The serial program without a port name\<close>

text \<open>
  C5, as the code has it. When the port name is empty (the flag absent or given as the
  empty string) the program stops in \<^verbatim>\<open>log.Fatal\<close>: the process exits with status 1
  and the message that the port name is required, and before that it has opened no port
  and made no call at all to the serial device or the file system.
\<close>

theorem empty_port_name_is_fatal:
  assumes "flag_String [] (port_arg args) = []"
  shows "main env args = (Fatal PortNameRequired, [])"
  using assms by (simp add: main_def Let_def)

theorem empty_port_name_is_fatal_witness:
  "flag_String [] (port_arg (no_flags\<lparr>port_arg := Some []\<rparr>)) = []
   \<and> main serial_ok (no_flags\<lparr>port_arg := Some []\<rparr>) = (Fatal PortNameRequired, [])"
proof -
  have a: "flag_String [] (port_arg (no_flags\<lparr>port_arg := Some []\<rparr>)) = []"
    by (simp add: flag_String_def)
  from empty_port_name_is_fatal [OF a] a show ?thesis by simp
qed

text \<open>No error comes back to a caller: without the port flag the run ends the process.\<close>

theorem empty_port_name_exits_process:
  "fst (main serial_ok no_flags) = Fatal PortNameRequired
   \<and> fst (main serial_ok no_flags) \<noteq> Returned"
  by (simp add: main_def no_flags_def flag_String_def Let_def)

section \<open>Sending a file\<close>

text \<open>\<open>sendZplFromFile\<close> writes the bytes it read, as they are.\<close>

lemma file_content_written_raw:
  assumes "ReadFile env f = Inr data"
  shows "writes (snd (sendZplFromFile env t f)) = writes t @ [data]"
  using assms by (simp add: sendZplFromFile_trace writes_append)

text \<open>
  C6. The claim is that a file is sent through send, so that a content without a final
  line feed gets one. A file holding \<^verbatim>\<open>^XA^XZ\<close> and no line feed is written to the
  port as those six bytes only, where the framing rule asks for a line feed after them;
  the same text given with \<^verbatim>\<open>-zpl\<close> goes through \<open>sendZpl\<close> and is written with
  the line feed.
\<close>

theorem file_is_sent_without_framing:
  "ReadFile serial_ok ''label.zpl'' = Inr ''^XA^XZ''
   \<and> writes (snd (main serial_ok
        (no_flags\<lparr>port_arg := Some ''COM3'', file_arg := Some ''label.zpl''\<rparr>)))
       = [''^XA^XZ'']
   \<and> framed ''^XA^XZ'' = ''^XA^XZ'' @ [CHR 0x0A]
   \<and> writes (snd (main serial_ok
        (no_flags\<lparr>port_arg := Some ''COM3'', zpl_arg := Some ''^XA^XZ''\<rparr>)))
       = [''^XA^XZ'' @ [CHR 0x0A]]"
  by (simp add: main_def no_flags_def flag_String_def flag_Int_def Let_def serial_ok_def
                sendZplFromFile_def port_Write_def sendZpl_eq framed_def
                ends_with_line_feed_def)

section \<open>The interactive loop\<close>

text \<open>
  C7, as the code has it. In interactive mode (a port name, a port that opens, no file
  and no text given) the program returns normally, and of the lines read it sends, each
  as one framed payload of its own and in order, exactly the non-empty lines that come
  before the first line whose \<^verbatim>\<open>strings.ToLower\<close> is \<^verbatim>\<open>exit\<close>, or all non-empty
  lines when there is no such line. Every payload is followed by one report, an error
  report when its write failed and a success report otherwise, and a failed write stops
  nothing: the writes are the same whatever the port answers.
\<close>

theorem interactive_mode:
  assumes "flag_String [] (port_arg args) \<noteq> []"
      and "OpenPort env \<lparr>Name = flag_String [] (port_arg args),
                          Baud = flag_Int 9600 (baud_arg args),
                          Size = 8, Parity = ParityNone, StopBits = Stop1\<rparr> = None"
      and "flag_String [] (file_arg args) = []"
      and "flag_String [] (zpl_arg args) = []"
  shows "fst (main env args) = Returned
         \<and> writes (snd (main env args)) =
             map framed (filter (\<lambda>l. l \<noteq> [])
               (takeWhile (\<lambda>l. ToLower env l \<noteq> ''exit'') (stdin_lines env)))
         \<and> reports (snd (main env args)) =
             report_each env 0 (writes (snd (main env args)))"
  using assms
  by (simp add: main_def Let_def writes_append reports_append interactive_writes
                interactive_reports split: option.splits)

theorem interactive_mode_witness:
  "writes (snd (main (serial_ok\<lparr>stdin_lines := typed_lines, PortWrite := first_write_fails\<rparr>)
                     (no_flags\<lparr>port_arg := Some ''COM3''\<rparr>))) =
     [''^XA'' @ [CHR 0x0A], ''exit now'' @ [CHR 0x0A], ''^XZ'' @ [CHR 0x0A]]
   \<and> reports (snd (main (serial_ok\<lparr>stdin_lines := typed_lines, PortWrite := first_write_fails\<rparr>)
                     (no_flags\<lparr>port_arg := Some ''COM3''\<rparr>))) =
     [ErrorSendingCommand (Lib ''timeout''), CommandSent, CommandSent]"
  using interactive_mode [of "no_flags\<lparr>port_arg := Some ''COM3''\<rparr>"
          "serial_ok\<lparr>stdin_lines := typed_lines, PortWrite := first_write_fails\<rparr>"]
  by (simp add: no_flags_def flag_String_def serial_ok_def typed_lines_def ascii_lower_simps
                framed_def ends_with_line_feed_def first_write_fails_def)

text \<open>The sentinel is not only the line \<^verbatim>\<open>exit\<close>: the line \<^verbatim>\<open>EXIT\<close> ends the loop
  as well, so neither it nor the line after it is sent, where a loop that ends only at
  \<^verbatim>\<open>exit\<close> would send both.\<close>

theorem upper_case_exit_ends_loop:
  "writes (snd (main (serial_ok\<lparr>stdin_lines := [''EXIT'', ''^XA'']\<rparr>)
                     (no_flags\<lparr>port_arg := Some ''COM3''\<rparr>))) = []
   \<and> map framed (filter (\<lambda>l. l \<noteq> []) (takeWhile (\<lambda>l. l \<noteq> ''exit'') [''EXIT'', ''^XA'']))
       = [''EXIT'' @ [CHR 0x0A], ''^XA'' @ [CHR 0x0A]]"
  by (simp add: main_def no_flags_def flag_String_def flag_Int_def Let_def serial_ok_def
                ascii_lower_simps framed_def ends_with_line_feed_def)

section \<open>An unreachable network printer\<close>

text \<open>
  C8. When the dial of the address fails, \<open>NewNetworkPrinter\<close> returns the error
  ``failed to connect to printer'' carrying the dial's error, and no handle: the result is
  an error value, and no connection exists for a handle to retain.
\<close>

theorem NewNetworkPrinter_unreachable:
  assumes "Dial env ''tcp'' a = Inl e"
  shows "NewNetworkPrinter env a = Inl (FailedToConnect e)
         \<and> isl (NewNetworkPrinter env a)"
  using assms by (simp add: NewNetworkPrinter_def)

theorem NewNetworkPrinter_unreachable_witness:
  "Dial net_unreachable ''tcp'' ''10.0.0.1:9100'' = Inl ''connection refused''
   \<and> NewNetworkPrinter net_unreachable ''10.0.0.1:9100'' =
       Inl (FailedToConnect ''connection refused'')"
proof -
  have d: "Dial net_unreachable ''tcp'' ''10.0.0.1:9100'' = Inl ''connection refused''"
    by (simp add: net_unreachable_def net_ok_def)
  from NewNetworkPrinter_unreachable [OF d] d show ?thesis by simp
qed

section \<open>The serial line configuration\<close>

text \<open>
  C9. Whenever the serial program gets as far as opening a port (the port name is not
  empty) it opens exactly one, with 8 data bits, no parity and one stop bit, under the
  given name and at the baud rate of the \<^verbatim>\<open>-baud\<close> flag, which is 9600 when the flag
  is absent.
\<close>

theorem serial_open_config:
  assumes "flag_String [] (port_arg args) \<noteq> []"
  shows "opens (snd (main env args)) =
           [\<lparr>Name = flag_String [] (port_arg args),
             Baud = (case baud_arg args of None \<Rightarrow> 9600 | Some b \<Rightarrow> b),
             Size = 8, Parity = ParityNone, StopBits = Stop1\<rparr>]"
  using main_with_port [OF assms, of env] by (simp add: flag_Int_def)

theorem serial_open_config_witness:
  "flag_String [] (port_arg (no_flags\<lparr>port_arg := Some ''COM3''\<rparr>)) \<noteq> []
   \<and> opens (snd (main serial_ok (no_flags\<lparr>port_arg := Some ''COM3''\<rparr>))) =
       [\<lparr>Name = ''COM3'', Baud = 9600, Size = 8, Parity = ParityNone, StopBits = Stop1\<rparr>]
   \<and> opens (snd (main serial_ok
        (no_flags\<lparr>port_arg := Some ''COM3'', baud_arg := Some 19200\<rparr>))) =
       [\<lparr>Name = ''COM3'', Baud = 19200, Size = 8, Parity = ParityNone, StopBits = Stop1\<rparr>]"
  using serial_open_config [of "no_flags\<lparr>port_arg := Some ''COM3''\<rparr>" serial_ok]
        serial_open_config
          [of "no_flags\<lparr>port_arg := Some ''COM3'', baud_arg := Some 19200\<rparr>" serial_ok]
  by (simp add: no_flags_def flag_String_def)

section \<open>Sending on a closed handle\<close>

text \<open>
  C10. On the handle that \<open>Close\<close> leaves behind, whatever the handle was before, send
  returns an error and writes nothing, for every payload: the USB printer answers
  ``printer interface not claimed'' because its \<open>claimed\<close> flag is false, the network
  printer answers ``not connected to printer'' because its connection is nil. The same
  holds on any handle with the flag cleared, or the connection nil.
\<close>

theorem send_after_close_is_rejected:
  "USBPrinter_SendZPL uenv' (snd (fst (USBPrinter_Close uenv p))) zpl =
     (Some InterfaceNotClaimed, [])
   \<and> NetworkPrinter_SendZPL nenv' (snd (fst (NetworkPrinter_Close nenv n))) zpl =
     (Some NotConnected, [])
   \<and> USBPrinter_SendZPL uenv (p\<lparr>claimed := False\<rparr>) zpl = (Some InterfaceNotClaimed, [])
   \<and> NetworkPrinter_SendZPL nenv (n\<lparr>conn := None\<rparr>) zpl = (Some NotConnected, [])"
  by (simp add: USBPrinter_SendZPL_def NetworkPrinter_SendZPL_def USBPrinter_Close_def
                NetworkPrinter_Close_def Let_def split: option.splits)

theorem send_after_close_is_rejected_witness:
  "USBPrinter_SendZPL usb_ok (snd (fst (USBPrinter_Close usb_ok usb_handle))) ''^XA^XZ'' =
     (Some InterfaceNotClaimed, [])
   \<and> NetworkPrinter_SendZPL net_ok (snd (fst (NetworkPrinter_Close net_ok net_handle)))
       ''^XA^XZ'' =
     (Some NotConnected, [])"
  using send_after_close_is_rejected
          [of usb_ok usb_ok usb_handle "''^XA^XZ''" net_ok net_ok net_handle]
  by simp

end
